theory Spec2Isabelle
  imports Complex_Main
begin

section \<open>Floating-point values\<close>

text \<open>
  The arrays of a spectrum hold IEEE doubles. A double is modelled as a finite real, one of
  the two infinities, or NaN. Finite arithmetic is exact (no rounding, no overflow to an
  infinity, no underflow), and zero carries no sign: a division of a non-zero finite value
  by zero takes the sign of the numerator. The special values combine as IEEE 754 says.
\<close>

datatype fl = Fin real | PInf | NInf | NaN

fun isnan :: "fl \<Rightarrow> bool" where
  "isnan NaN = True"
| "isnan _ = False"

fun isfinite :: "fl \<Rightarrow> bool" where
  "isfinite (Fin _) = True"
| "isfinite _ = False"

definition inf_signed :: "real \<Rightarrow> fl" where
  "inf_signed a = (if a = 0 then NaN else if 0 < a then PInf else NInf)"

fun fl_neg :: "fl \<Rightarrow> fl" where
  "fl_neg (Fin a) = Fin (- a)"
| "fl_neg PInf = NInf"
| "fl_neg NInf = PInf"
| "fl_neg NaN = NaN"

fun fl_add :: "fl \<Rightarrow> fl \<Rightarrow> fl" where
  "fl_add NaN _ = NaN"
| "fl_add _ NaN = NaN"
| "fl_add (Fin a) (Fin b) = Fin (a + b)"
| "fl_add PInf NInf = NaN"
| "fl_add NInf PInf = NaN"
| "fl_add PInf _ = PInf"
| "fl_add _ PInf = PInf"
| "fl_add NInf _ = NInf"
| "fl_add _ NInf = NInf"

definition fl_sub :: "fl \<Rightarrow> fl \<Rightarrow> fl" where
  "fl_sub a b = fl_add a (fl_neg b)"

fun fl_mul :: "fl \<Rightarrow> fl \<Rightarrow> fl" where
  "fl_mul NaN _ = NaN"
| "fl_mul _ NaN = NaN"
| "fl_mul (Fin a) (Fin b) = Fin (a * b)"
| "fl_mul (Fin a) PInf = inf_signed a"
| "fl_mul (Fin a) NInf = inf_signed (- a)"
| "fl_mul PInf (Fin b) = inf_signed b"
| "fl_mul NInf (Fin b) = inf_signed (- b)"
| "fl_mul PInf PInf = PInf"
| "fl_mul PInf NInf = NInf"
| "fl_mul NInf PInf = NInf"
| "fl_mul NInf NInf = PInf"

fun fl_div :: "fl \<Rightarrow> fl \<Rightarrow> fl" where
  "fl_div NaN _ = NaN"
| "fl_div _ NaN = NaN"
| "fl_div (Fin a) (Fin b) = (if b = 0 then inf_signed a else Fin (a / b))"
| "fl_div (Fin a) _ = Fin 0"
| "fl_div PInf (Fin b) = (if 0 \<le> b then PInf else NInf)"
| "fl_div NInf (Fin b) = (if 0 \<le> b then NInf else PInf)"
| "fl_div _ _ = NaN"

text \<open>The comparisons of IEEE 754: every comparison with NaN is false, but \<open>!=\<close>.\<close>

fun fl_lt :: "fl \<Rightarrow> fl \<Rightarrow> bool" where
  "fl_lt NaN _ = False"
| "fl_lt _ NaN = False"
| "fl_lt (Fin a) (Fin b) = (a < b)"
| "fl_lt (Fin _) PInf = True"
| "fl_lt (Fin _) NInf = False"
| "fl_lt PInf _ = False"
| "fl_lt NInf NInf = False"
| "fl_lt NInf _ = True"

definition fl_eq :: "fl \<Rightarrow> fl \<Rightarrow> bool" where
  "fl_eq a b = (\<not> isnan a \<and> a = b)"

definition fl_ne :: "fl \<Rightarrow> fl \<Rightarrow> bool" where
  "fl_ne a b = (\<not> fl_eq a b)"

definition fl_le :: "fl \<Rightarrow> fl \<Rightarrow> bool" where
  "fl_le a b = (fl_lt a b \<or> fl_eq a b)"

definition fl_gt :: "fl \<Rightarrow> fl \<Rightarrow> bool" where
  "fl_gt a b = fl_lt b a"

definition fl_ge :: "fl \<Rightarrow> fl \<Rightarrow> bool" where
  "fl_ge a b = fl_le b a"

section \<open>Python values, errors and the object store\<close>

datatype pyval = PNone | PBool bool | PInt int | PFloat fl | PStr string

type_synonym pydict = "(string \<times> pyval) list"

datatype error =
    ValueError string
  | IndexError
  | KeyError string
  | NotImplementedError string

type_synonym addr = nat

record prov_record =
  operation :: string
  timestamp :: string
  details :: pydict

text \<open>
  Arrays, dictionaries and lists are mutable objects: two names may denote one object, and
  a change made through one name is seen through the other. The store keeps the objects of
  each kind in a list, and an address is an index into it; a new object is appended, so its
  address is one that no older object has. The clock is any sequence of readings:
  \<open>clock w n\<close> is what the \<open>n\<close>-th call of \<open>datetime.now().isoformat()\<close> returns.
  The values of a dictionary and the records of a provenance list are immutable values
  here, so a shallow copy and a deep copy of either are the same.
\<close>

record world =
  arrays :: "fl list list"
  dicts :: "pydict list"
  lists :: "prov_record list list"
  clock :: "nat \<Rightarrow> string"
  ticks :: nat

definition new_array :: "fl list \<Rightarrow> world \<Rightarrow> addr \<times> world" where
  "new_array xs w = (length (arrays w), w\<lparr>arrays := arrays w @ [xs]\<rparr>)"

definition new_dict :: "pydict \<Rightarrow> world \<Rightarrow> addr \<times> world" where
  "new_dict d w = (length (dicts w), w\<lparr>dicts := dicts w @ [d]\<rparr>)"

definition new_list :: "prov_record list \<Rightarrow> world \<Rightarrow> addr \<times> world" where
  "new_list l w = (length (lists w), w\<lparr>lists := lists w @ [l]\<rparr>)"

definition now :: "world \<Rightarrow> string \<times> world" where
  "now w = (clock w (ticks w), w\<lparr>ticks := Suc (ticks w)\<rparr>)"

section \<open>The Spectrum class (specz/spectrum.py)\<close>

record spectrum =
  wavelength :: addr
  flux :: addr
  wavelength_unit :: string
  flux_unit :: string
  metadata :: addr
  provenance :: addr
  name :: "string option"

text \<open>\<open>self.provenance.append(record)\<close>, the record stamped with the clock.\<close>

definition add_provenance :: "spectrum \<Rightarrow> string \<Rightarrow> pydict \<Rightarrow> world \<Rightarrow> world" where
  "add_provenance s opn det w =
     (let (t, w1) = now w;
          r = \<lparr>operation = opn, timestamp = t, details = det\<rparr>
      in w1\<lparr>lists := (lists w1)[provenance s := lists w1 ! provenance s @ [r]]\<rparr>)"

text \<open>\<open>metadata or {}\<close>: \<open>None\<close> and the empty dictionary are falsy and give a new one.\<close>

definition or_new_dict :: "addr option \<Rightarrow> world \<Rightarrow> addr \<times> world" where
  "or_new_dict md w =
     (case md of
        None \<Rightarrow> new_dict [] w
      | Some m \<Rightarrow> if dicts w ! m = [] then new_dict [] w else (m, w))"

text \<open>\<open>provenance or []\<close>: \<open>None\<close> and the empty list are falsy and give a new one.\<close>

definition or_new_list :: "addr option \<Rightarrow> world \<Rightarrow> addr \<times> world" where
  "or_new_list pv w =
     (case pv of
        None \<Rightarrow> new_list [] w
      | Some p \<Rightarrow> if lists w ! p = [] then new_list [] w else (p, w))"

text \<open>
  \<open>Spectrum.__init__\<close>. The two arrays are given by address: \<open>np.asarray(x, dtype=float)\<close>
  returns \<open>x\<close> itself when it is an array of doubles already, and a caller that passes a
  plain sequence is one that allocates the array first.
\<close>

definition Spectrum_init ::
  "addr \<Rightarrow> addr \<Rightarrow> string \<Rightarrow> string \<Rightarrow> addr option \<Rightarrow> addr option \<Rightarrow> string option
     \<Rightarrow> world \<Rightarrow> error + (spectrum \<times> world)" where
  "Spectrum_init wl fx wu fu md pv nm w =
     (if length (arrays w ! wl) \<noteq> length (arrays w ! fx)
      then Inl (ValueError ''Wavelength and flux arrays must have the same length'')
      else
        let (m, w1) = or_new_dict md w;
            (p, w2) = or_new_list pv w1;
            s = \<lparr>wavelength = wl, flux = fx, wavelength_unit = wu, flux_unit = fu,
                 metadata = m, provenance = p, name = nm\<rparr>;
            (t, w3) = now w2
        in Inr (s, add_provenance s ''created'' [(''timestamp'', PStr t)] w3))"


text \<open>
  A boolean mask selects from an array of the mask's own length; on another length numpy
  raises \<open>IndexError\<close>.
\<close>

definition mask_select :: "bool list \<Rightarrow> fl list \<Rightarrow> error + fl list" where
  "mask_select msk xs =
     (if length msk \<noteq> length xs then Inl IndexError
      else Inr (map snd (filter fst (zip msk xs))))"

definition range_mask :: "fl list \<Rightarrow> fl \<Rightarrow> fl \<Rightarrow> bool list" where
  "range_mask wls lo hi = map (\<lambda>x. fl_ge x lo \<and> fl_le x hi) wls"

definition get_range :: "spectrum \<Rightarrow> fl \<Rightarrow> fl \<Rightarrow> world \<Rightarrow> error + (spectrum \<times> world)" where
  "get_range s wl_min wl_max w =
     (let msk = range_mask (arrays w ! wavelength s) wl_min wl_max in
      case mask_select msk (arrays w ! wavelength s) of
        Inl e \<Rightarrow> Inl e
      | Inr wsel \<Rightarrow>
          (case mask_select msk (arrays w ! flux s) of
             Inl e \<Rightarrow> Inl e
           | Inr fsel \<Rightarrow>
               let (wl, w1) = new_array wsel w;
                   (fx, w2) = new_array fsel w1;
                   (m, w3) = new_dict (dicts w2 ! metadata s) w2;
                   (p, w4) = new_list (lists w3 ! provenance s) w3
               in (case Spectrum_init wl fx (wavelength_unit s) (flux_unit s)
                          (Some m) (Some p) (name s) w4 of
                     Inl e \<Rightarrow> Inl e
                   | Inr (r, w5) \<Rightarrow>
                       Inr (r, add_provenance r ''range_extraction''
                                 [(''wl_min'', PFloat wl_min), (''wl_max'', PFloat wl_max)] w5))))"

text \<open>
  The dictionary of \<open>to_dict\<close>: the arrays as plain sequences of numbers, the metadata
  dictionary and the provenance list by reference. A key that is absent is \<open>None\<close>.
\<close>

record spectrum_dict =
  wavelength_item :: "fl list option"
  flux_item :: "fl list option"
  wavelength_unit_item :: "string option"
  flux_unit_item :: "string option"
  metadata_item :: "addr option"
  provenance_item :: "addr option"
  name_item :: "string option"

definition to_dict :: "spectrum \<Rightarrow> world \<Rightarrow> spectrum_dict" where
  "to_dict s w =
     \<lparr>wavelength_item = Some (arrays w ! wavelength s),
      flux_item = Some (arrays w ! flux s),
      wavelength_unit_item = Some (wavelength_unit s),
      flux_unit_item = Some (flux_unit s),
      metadata_item = Some (metadata s),
      provenance_item = Some (provenance s),
      name_item = name s\<rparr>"

definition from_dict :: "spectrum_dict \<Rightarrow> world \<Rightarrow> error + (spectrum \<times> world)" where
  "from_dict data w =
     (case wavelength_item data of
        None \<Rightarrow> Inl (KeyError ''wavelength'')
      | Some wls \<Rightarrow>
          let (wl, w1) = new_array wls w in
          (case flux_item data of
             None \<Rightarrow> Inl (KeyError ''flux'')
           | Some fxs \<Rightarrow>
               let (fx, w2) = new_array fxs w1;
                   wu = (case wavelength_unit_item data of None \<Rightarrow> ''nm'' | Some u \<Rightarrow> u);
                   fu = (case flux_unit_item data of None \<Rightarrow> ''counts'' | Some u \<Rightarrow> u);
                   (m, w3) = (case metadata_item data of
                                None \<Rightarrow> new_dict [] w2 | Some a \<Rightarrow> (a, w2));
                   (p, w4) = (case provenance_item data of
                                None \<Rightarrow> new_list [] w3 | Some a \<Rightarrow> (a, w3))
               in Spectrum_init wl fx wu fu (Some m) (Some p) (name_item data) w4))"

section \<open>The numpy functions the operations call\<close>

text \<open>
  These are numpy's, not this package's; each is written after numpy's behaviour on
  one-dimensional arrays of doubles.
\<close>

text \<open>An elementwise operator on two arrays; an array of length one is broadcast.\<close>

definition np_binop :: "(fl \<Rightarrow> fl \<Rightarrow> fl) \<Rightarrow> fl list \<Rightarrow> fl list \<Rightarrow> error + fl list" where
  "np_binop f xs ys =
     (if length xs = length ys then Inr (map2 f xs ys)
      else if length ys = 1 then Inr (map (\<lambda>x. f x (hd ys)) xs)
      else if length xs = 1 then Inr (map (\<lambda>y. f (hd xs) y) ys)
      else Inl (ValueError ''operands could not be broadcast together''))"

text \<open>\<open>np.array_equal\<close>: the same length and \<open>==\<close> at every index (so never with a NaN).\<close>

definition array_equal :: "fl list \<Rightarrow> fl list \<Rightarrow> bool" where
  "array_equal xs ys = (length xs = length ys \<and> list_all2 fl_eq xs ys)"

text \<open>
  \<open>np.interp(x, xp, fp)\<close>. For each \<open>x\<close> numpy finds the index \<open>j\<close> of the interval of
  \<open>xp\<close> that holds it and interpolates linearly between \<open>fp[j]\<close> and \<open>fp[j+1]\<close>; left of
  \<open>xp\<close> the result is \<open>fp[0]\<close> and right of it \<open>fp[-1]\<close>; a NaN result of the
  interpolation is computed again from the right end of the interval. numpy does not
  check that \<open>xp\<close> is increasing and leaves the result open when it is not;
  \<open>search_from\<close> is the linear search numpy runs on short arrays, which finds the same
  index as its binary search on an increasing \<open>xp\<close>.
\<close>

fun search_from :: "fl \<Rightarrow> fl list \<Rightarrow> nat" where
  "search_from key [] = 0"
| "search_from key (e # es) = (if fl_ge key e then Suc (search_from key es) else 0)"

definition interp_at :: "fl list \<Rightarrow> fl list \<Rightarrow> fl \<Rightarrow> fl" where
  "interp_at xp fp x =
     (if length xp = 1 then hd fp
      else if isnan x then x
      else if fl_gt x (last xp) then last fp
      else if fl_lt x (hd xp) then hd fp
      else
        let j = search_from x (tl xp) in
        if j = length xp - 1 then fp ! j
        else if fl_eq (xp ! j) x then fp ! j
        else
          let slope = fl_div (fl_sub (fp ! Suc j) (fp ! j)) (fl_sub (xp ! Suc j) (xp ! j));
              r = fl_add (fl_mul slope (fl_sub x (xp ! j))) (fp ! j)
          in if isnan r
             then
               let r2 = fl_add (fl_mul slope (fl_sub x (xp ! Suc j))) (fp ! Suc j)
               in if isnan r2 \<and> fl_eq (fp ! j) (fp ! Suc j) then fp ! j else r2
             else r)"

definition np_interp :: "fl list \<Rightarrow> fl list \<Rightarrow> fl list \<Rightarrow> error + fl list" where
  "np_interp x xp fp =
     (if xp = [] then Inl (ValueError ''array of sample points is empty'')
      else if length fp \<noteq> length xp then Inl (ValueError ''fp and xp are not of the same length.'')
      else Inr (map (interp_at xp fp) x))"

text \<open>\<open>np.max\<close>: a NaN anywhere gives NaN; an empty array raises.\<close>

definition fl_max :: "fl \<Rightarrow> fl \<Rightarrow> fl" where
  "fl_max a b = (if isnan a then a else if isnan b then b else if fl_lt a b then b else a)"

definition np_max :: "fl list \<Rightarrow> error + fl" where
  "np_max xs =
     (case xs of
        [] \<Rightarrow> Inl (ValueError ''zero-size array to reduction operation maximum which has no identity'')
      | y # ys \<Rightarrow> Inr (foldl fl_max y ys))"

text \<open>
  \<open>np.trapz(y)\<close> with no \<open>x\<close> and the default \<open>dx = 1.0\<close>:
  \<open>(dx * (y[1:] + y[:-1]) / 2.0).sum()\<close>.
\<close>

definition np_sum :: "fl list \<Rightarrow> fl" where
  "np_sum xs = foldl fl_add (Fin 0) xs"

definition np_trapz :: "fl list \<Rightarrow> fl" where
  "np_trapz y =
     np_sum (map2 (\<lambda>a b. fl_div (fl_mul (Fin 1) (fl_add a b)) (Fin 2)) (tl y) (butlast y))"

text \<open>\<open>np.sort\<close>: ascending, the NaNs last.\<close>

definition sort_le :: "fl \<Rightarrow> fl \<Rightarrow> bool" where
  "sort_le a b = (isnan b \<or> (\<not> isnan a \<and> fl_le a b))"

fun insort_fl :: "fl \<Rightarrow> fl list \<Rightarrow> fl list" where
  "insort_fl x [] = [x]"
| "insort_fl x (y # ys) = (if sort_le x y then x # y # ys else y # insort_fl x ys)"

definition np_sort :: "fl list \<Rightarrow> fl list" where
  "np_sort xs = foldr insort_fl xs []"

text \<open>
  \<open>np.median\<close>: NaN on an empty array and on one that holds a NaN; else the middle element,
  or the mean of the two middle ones.
\<close>

definition np_median :: "fl list \<Rightarrow> fl" where
  "np_median xs =
     (let s = np_sort xs; n = length s in
      if n = 0 then NaN
      else if list_ex isnan s then NaN
      else if odd n then s ! (n div 2)
      else fl_div (fl_add (s ! (n div 2 - 1)) (s ! (n div 2))) (Fin 2))"

section \<open>Operations on spectra (specz/operations.py)\<close>

definition apostrophe :: string where
  "apostrophe = [CHR 0x27]"

definition quoted :: "string \<Rightarrow> string" where
  "quoted s = apostrophe @ s @ apostrophe"

text \<open>\<open>spectrum_b.name or "unnamed"\<close>: \<open>None\<close> and the empty string are falsy.\<close>

definition name_or_unnamed :: "string option \<Rightarrow> string" where
  "name_or_unnamed nm = (case nm of None \<Rightarrow> ''unnamed'' | Some n \<Rightarrow> if n = [] then ''unnamed'' else n)"

text \<open>
  The grid alignment that \<open>subtract_spectra\<close> and \<open>divide_spectra\<close> share: the flux of
  \<open>spectrum_b\<close> on the grid of \<open>spectrum_a\<close>.
\<close>

definition align_flux :: "spectrum \<Rightarrow> spectrum \<Rightarrow> bool \<Rightarrow> world \<Rightarrow> error + fl list" where
  "align_flux a b interpolate w =
     (if interpolate \<and> \<not> array_equal (arrays w ! wavelength a) (arrays w ! wavelength b)
      then np_interp (arrays w ! wavelength a) (arrays w ! wavelength b) (arrays w ! flux b)
      else if length (arrays w ! wavelength a) \<noteq> length (arrays w ! wavelength b)
      then Inl (ValueError ''Spectra must have same length or use interpolate=True'')
      else Inr (arrays w ! flux b))"

definition subtract_spectra ::
  "spectrum \<Rightarrow> spectrum \<Rightarrow> bool \<Rightarrow> world \<Rightarrow> error + (spectrum \<times> world)" where
  "subtract_spectra a b interpolate w =
     (case align_flux a b interpolate w of
        Inl e \<Rightarrow> Inl e
      | Inr flux_b_interp \<Rightarrow>
          (case np_binop fl_sub (arrays w ! flux a) flux_b_interp of
             Inl e \<Rightarrow> Inl e
           | Inr result_flux \<Rightarrow>
               let (fx, w1) = new_array result_flux w;
                   (wl, w2) = new_array (arrays w1 ! wavelength a) w1;
                   (m, w3) = new_dict (dicts w2 ! metadata a) w2;
                   (p, w4) = new_list (lists w3 ! provenance a) w3
               in (case Spectrum_init wl fx (wavelength_unit a) (flux_unit a)
                          (Some m) (Some p) None w4 of
                     Inl e \<Rightarrow> Inl e
                   | Inr (r, w5) \<Rightarrow>
                       Inr (r, add_provenance r ''subtraction''
                                 [(''operand'', PStr (name_or_unnamed (name b))),
                                  (''interpolated'', PBool interpolate)] w5))))"

text \<open>The three policies of \<open>divide_spectra\<close> for a zero in the denominator.\<close>

definition divide_flux :: "string \<Rightarrow> fl list \<Rightarrow> fl list \<Rightarrow> error + fl list" where
  "divide_flux handle_zeros fa fb =
     (if handle_zeros = ''mask'' then
        (if length fb \<noteq> length fa then Inl IndexError
         else Inr (map2 (\<lambda>x y. if fl_ne y (Fin 0) then fl_div x y else NaN) fa fb))
      else if handle_zeros = ''nan'' then np_binop fl_div fa fb
      else if handle_zeros = ''small'' then
        np_binop fl_div fa (map (\<lambda>y. if fl_eq y (Fin 0) then Fin (1 / 10 ^ 10) else y) fb)
      else Inl (ValueError (''handle_zeros must be '' @ quoted ''mask'' @ '', '' @ quoted ''nan''
                             @ '', or '' @ quoted ''small'')))"

definition divide_spectra ::
  "spectrum \<Rightarrow> spectrum \<Rightarrow> bool \<Rightarrow> string \<Rightarrow> world \<Rightarrow> error + (spectrum \<times> world)" where
  "divide_spectra a b interpolate handle_zeros w =
     (case align_flux a b interpolate w of
        Inl e \<Rightarrow> Inl e
      | Inr flux_b_interp \<Rightarrow>
          (case divide_flux handle_zeros (arrays w ! flux a) flux_b_interp of
             Inl e \<Rightarrow> Inl e
           | Inr result_flux \<Rightarrow>
               let (fx, w1) = new_array result_flux w;
                   (wl, w2) = new_array (arrays w1 ! wavelength a) w1;
                   (m, w3) = new_dict (dicts w2 ! metadata a) w2;
                   (p, w4) = new_list (lists w3 ! provenance a) w3
               in (case Spectrum_init wl fx (wavelength_unit a)
                          (''('' @ flux_unit a @ '')/('' @ flux_unit b @ '')'')
                          (Some m) (Some p) None w4 of
                     Inl e \<Rightarrow> Inl e
                   | Inr (r, w5) \<Rightarrow>
                       Inr (r, add_provenance r ''division''
                                 [(''operand'', PStr (name_or_unnamed (name b))),
                                  (''interpolated'', PBool interpolate),
                                  (''handle_zeros'', PStr handle_zeros)] w5))))"

text \<open>
  The normalization factor. \<open>int(len(sorted_flux) * 0.9)\<close> is \<open>9 * n div 10\<close>: the
  product is a whole number only when \<open>n\<close> is a multiple of ten, and there the double
  nearest to it is that whole number.
\<close>

definition norm_factor_of :: "string \<Rightarrow> fl list \<Rightarrow> error + fl" where
  "norm_factor_of method flux_region =
     (if method = ''peak'' then np_max flux_region
      else if method = ''area'' then Inr (np_trapz flux_region)
      else if method = ''continuum'' then
        (let sorted_flux = np_sort flux_region;
             top_10_percent = 9 * length sorted_flux div 10
         in Inr (np_median (drop top_10_percent sorted_flux)))
      else Inl (ValueError (''method must be '' @ quoted ''peak'' @ '', '' @ quoted ''area''
                             @ '', or '' @ quoted ''continuum'')))"

definition pyfloat_opt :: "fl option \<Rightarrow> pyval" where
  "pyfloat_opt x = (case x of None \<Rightarrow> PNone | Some v \<Rightarrow> PFloat v)"

definition flux_region_of :: "spectrum \<Rightarrow> fl option \<Rightarrow> fl option \<Rightarrow> world \<Rightarrow> error + fl list" where
  "flux_region_of s range_min range_max w =
     (case range_min of
        None \<Rightarrow> Inr (arrays w ! flux s)
      | Some lo \<Rightarrow>
          (case range_max of
             None \<Rightarrow> Inr (arrays w ! flux s)
           | Some hi \<Rightarrow>
               mask_select (range_mask (arrays w ! wavelength s) lo hi) (arrays w ! flux s)))"

definition normalize_spectrum ::
  "spectrum \<Rightarrow> string \<Rightarrow> fl option \<Rightarrow> fl option \<Rightarrow> world \<Rightarrow> error + (spectrum \<times> world)" where
  "normalize_spectrum s method range_min range_max w =
     (case flux_region_of s range_min range_max w of
        Inl e \<Rightarrow> Inl e
      | Inr flux_region \<Rightarrow>
          (case norm_factor_of method flux_region of
             Inl e \<Rightarrow> Inl e
           | Inr norm_factor \<Rightarrow>
               if fl_eq norm_factor (Fin 0)
               then Inl (ValueError ''Cannot normalize: normalization factor is zero'')
               else
                 let normalized_flux = map (\<lambda>x. fl_div x norm_factor) (arrays w ! flux s);
                     (fx, w1) = new_array normalized_flux w;
                     (wl, w2) = new_array (arrays w1 ! wavelength s) w1;
                     (m, w3) = new_dict (dicts w2 ! metadata s) w2;
                     (p, w4) = new_list (lists w3 ! provenance s) w3
                 in (case Spectrum_init wl fx (wavelength_unit s) ''normalized''
                            (Some m) (Some p) (name s) w4 of
                       Inl e \<Rightarrow> Inl e
                     | Inr (r, w5) \<Rightarrow>
                         Inr (r, add_provenance r ''normalization''
                                   [(''method'', PStr method),
                                    (''norm_factor'', PFloat norm_factor),
                                    (''range_min'', pyfloat_opt range_min),
                                    (''range_max'', pyfloat_opt range_max)] w5))))"

text \<open>
  The three filters are scipy's (\<open>savgol_filter\<close> with \<open>polyorder=3\<close>,
  \<open>uniform_filter1d\<close>, \<open>gaussian_filter1d\<close>); \<open>smooth_spectrum\<close> takes them as a
  parameter, and nothing is assumed of what they compute.
\<close>

record smoothers =
  savgol_filter :: "fl list \<Rightarrow> int \<Rightarrow> error + fl list"
  uniform_filter1d :: "fl list \<Rightarrow> int \<Rightarrow> error + fl list"
  gaussian_filter1d :: "fl list \<Rightarrow> fl \<Rightarrow> error + fl list"

definition smooth_flux :: "smoothers \<Rightarrow> string \<Rightarrow> int \<Rightarrow> fl list \<Rightarrow> error + (fl list \<times> int)" where
  "smooth_flux sc method window_size fxs =
     (if method = ''savgol'' then
        (let ws = (if window_size mod 2 = 0 then window_size + 1 else window_size) in
         case savgol_filter sc fxs ws of Inl e \<Rightarrow> Inl e | Inr ys \<Rightarrow> Inr (ys, ws))
      else if method = ''boxcar'' then
        (case uniform_filter1d sc fxs window_size of
           Inl e \<Rightarrow> Inl e | Inr ys \<Rightarrow> Inr (ys, window_size))
      else if method = ''gaussian'' then
        (case gaussian_filter1d sc fxs (Fin (real_of_int window_size / 3)) of
           Inl e \<Rightarrow> Inl e | Inr ys \<Rightarrow> Inr (ys, window_size))
      else Inl (ValueError (''method must be '' @ quoted ''savgol'' @ '', '' @ quoted ''boxcar''
                             @ '', or '' @ quoted ''gaussian'')))"

definition smooth_spectrum ::
  "smoothers \<Rightarrow> spectrum \<Rightarrow> int \<Rightarrow> string \<Rightarrow> world \<Rightarrow> error + (spectrum \<times> world)" where
  "smooth_spectrum sc s window_size method w =
     (case smooth_flux sc method window_size (arrays w ! flux s) of
        Inl e \<Rightarrow> Inl e
      | Inr (smoothed_flux, ws) \<Rightarrow>
          let (fx, w1) = new_array smoothed_flux w;
              (wl, w2) = new_array (arrays w1 ! wavelength s) w1;
              (m, w3) = new_dict (dicts w2 ! metadata s) w2;
              (p, w4) = new_list (lists w3 ! provenance s) w3
          in (case Spectrum_init wl fx (wavelength_unit s) (flux_unit s)
                     (Some m) (Some p) (name s) w4 of
                Inl e \<Rightarrow> Inl e
              | Inr (r, w5) \<Rightarrow>
                  Inr (r, add_provenance r ''smoothing''
                            [(''method'', PStr method), (''window_size'', PInt ws)] w5)))"

section \<open>Unit conversion (specz/converters.py)\<close>

definition SPEED_OF_LIGHT :: real where
  "SPEED_OF_LIGHT = 299792458"

definition PLANCK_CONSTANT :: real where
  "PLANCK_CONSTANT = 662607015 / 10 ^ 42"

definition ELECTRON_VOLT :: real where
  "ELECTRON_VOLT = 1602176634 / 10 ^ 28"

text \<open>The letter A with a ring above, U+00C5, as the two bytes of its UTF-8 form.\<close>

definition A_ring :: string where
  "A_ring = [CHR 0xC3, CHR 0x85]"

definition times_scalar :: "fl list \<Rightarrow> real \<Rightarrow> fl list" where
  "times_scalar xs k = map (\<lambda>x. fl_mul x (Fin k)) xs"

definition wavelength_to_frequency :: "fl list \<Rightarrow> string \<Rightarrow> error + fl list" where
  "wavelength_to_frequency wl wl_unit =
     (case (if wl_unit = ''nm'' then Inr (times_scalar wl (1 / 10 ^ 9))
            else if wl_unit \<in> set [''angstrom'', A_ring] then Inr (times_scalar wl (1 / 10 ^ 10))
            else if wl_unit = ''um'' then Inr (times_scalar wl (1 / 10 ^ 6))
            else if wl_unit = ''m'' then Inr wl
            else Inl (ValueError (''Unknown wavelength unit: '' @ wl_unit))) of
        Inl e \<Rightarrow> Inl e
      | Inr wavelength_m \<Rightarrow> Inr (map (\<lambda>x. fl_div (Fin SPEED_OF_LIGHT) x) wavelength_m))"

definition frequency_to_energy :: "fl list \<Rightarrow> string \<Rightarrow> error + fl list" where
  "frequency_to_energy frequency unit =
     (let energy_j = map (\<lambda>x. fl_mul (Fin PLANCK_CONSTANT) x) frequency in
      if unit = ''eV'' then Inr (map (\<lambda>x. fl_div x (Fin ELECTRON_VOLT)) energy_j)
      else if unit = ''J'' then Inr energy_j
      else Inl (ValueError (''Unknown energy unit: '' @ unit)))"

definition convert_wavelength_units :: "fl list \<Rightarrow> string \<Rightarrow> string \<Rightarrow> error + fl list" where
  "convert_wavelength_units wl from_unit to_unit =
     (if from_unit = to_unit then Inr wl
      else
        case (if from_unit = ''nm'' then Inr (times_scalar wl (1 / 10 ^ 9))
              else if from_unit \<in> set [''angstrom'', A_ring] then Inr (times_scalar wl (1 / 10 ^ 10))
              else if from_unit = ''um'' then Inr (times_scalar wl (1 / 10 ^ 6))
              else if from_unit = ''m'' then Inr wl
              else Inl (ValueError (''Unknown source unit: '' @ from_unit))) of
          Inl e \<Rightarrow> Inl e
        | Inr wavelength_m \<Rightarrow>
            if to_unit = ''nm'' then Inr (times_scalar wavelength_m (10 ^ 9))
            else if to_unit \<in> set [''angstrom'', A_ring] then Inr (times_scalar wavelength_m (10 ^ 10))
            else if to_unit = ''um'' then Inr (times_scalar wavelength_m (10 ^ 6))
            else if to_unit = ''m'' then Inr wavelength_m
            else Inl (ValueError (''Unknown target unit: '' @ to_unit)))"

definition str_opt :: "string option \<Rightarrow> string" where
  "str_opt u = (case u of None \<Rightarrow> ''None'' | Some x \<Rightarrow> x)"

definition pystr_opt :: "string option \<Rightarrow> pyval" where
  "pystr_opt u = (case u of None \<Rightarrow> PNone | Some x \<Rightarrow> PStr x)"

text \<open>
  The new axis of \<open>convert_units\<close>, by address. \<open>convert_wavelength_units\<close> returns its
  argument itself when the two units are equal, so there the new axis is the array of the
  input spectrum; every other conversion computes a new array.
\<close>

definition new_axis :: "spectrum \<Rightarrow> string \<Rightarrow> string option \<Rightarrow> world \<Rightarrow> error + (addr \<times> string \<times> world)" where
  "new_axis s from_unit to_unit w =
     (case to_unit of
        None \<Rightarrow> Inl (ValueError (''Unknown target unit: '' @ str_opt to_unit))
      | Some tu \<Rightarrow>
          if tu \<in> set [''nm'', ''angstrom'', A_ring, ''um'', ''m''] then
            (case convert_wavelength_units (arrays w ! wavelength s) from_unit tu of
               Inl e \<Rightarrow> Inl e
             | Inr xs \<Rightarrow>
                 if from_unit = tu then Inr (wavelength s, tu, w)
                 else (let (a, w1) = new_array xs w in Inr (a, tu, w1)))
          else if tu = ''Hz'' then
            (case wavelength_to_frequency (arrays w ! wavelength s) from_unit of
               Inl e \<Rightarrow> Inl e
             | Inr xs \<Rightarrow> (let (a, w1) = new_array xs w in Inr (a, ''Hz'', w1)))
          else if tu = ''eV'' then
            (case wavelength_to_frequency (arrays w ! wavelength s) from_unit of
               Inl e \<Rightarrow> Inl e
             | Inr freq \<Rightarrow>
                 (case frequency_to_energy freq ''eV'' of
                    Inl e \<Rightarrow> Inl e
                  | Inr xs \<Rightarrow> (let (a, w1) = new_array xs w in Inr (a, ''eV'', w1))))
          else Inl (ValueError (''Unknown target unit: '' @ tu)))"

definition convert_units ::
  "spectrum \<Rightarrow> string option \<Rightarrow> string option \<Rightarrow> string \<Rightarrow> world \<Rightarrow> error + (spectrum \<times> world)" where
  "convert_units s from_unit to_unit axis w =
     (if axis = ''wavelength'' then
        (let fu = (case from_unit of None \<Rightarrow> wavelength_unit s | Some u \<Rightarrow> u) in
         case new_axis s fu to_unit w of
           Inl e \<Rightarrow> Inl e
         | Inr (wl, new_unit, w1) \<Rightarrow>
             let (fx, w2) = new_array (arrays w1 ! flux s) w1;
                 (m, w3) = new_dict (dicts w2 ! metadata s) w2;
                 (p, w4) = new_list (lists w3 ! provenance s) w3
             in (case Spectrum_init wl fx new_unit (flux_unit s) (Some m) (Some p) (name s) w4 of
                   Inl e \<Rightarrow> Inl e
                 | Inr (r, w5) \<Rightarrow>
                     Inr (r, add_provenance r ''unit_conversion''
                               [(''axis'', PStr ''wavelength''),
                                (''from_unit'', PStr fu),
                                (''to_unit'', pystr_opt to_unit)] w5)))
      else Inl (NotImplementedError ''Flux unit conversion not yet implemented''))"

section \<open>Well-formed spectra, observations and example inputs\<close>

text \<open>
  A spectrum of a store: its four addresses are those of objects of the store, and its two
  arrays have one length.
\<close>

definition valid :: "world \<Rightarrow> spectrum \<Rightarrow> bool" where
  "valid w s \<longleftrightarrow>
     wavelength s < length (arrays w) \<and> flux s < length (arrays w) \<and>
     metadata s < length (dicts w) \<and> provenance s < length (lists w) \<and>
     length (arrays w ! wavelength s) = length (arrays w ! flux s)"

text \<open>The record that \<open>Spectrum.__init__\<close> appends when it is called in the store \<open>w\<close>.\<close>

definition created_record :: "world \<Rightarrow> prov_record" where
  "created_record w =
     \<lparr>operation = ''created'', timestamp = clock w (Suc (ticks w)),
      details = [(''timestamp'', PStr (clock w (ticks w)))]\<rparr>"

text \<open>What a result holds, read in the store it comes with; \<open>None\<close> when the call raised.\<close>

definition result_log :: "error + spectrum \<times> world \<Rightarrow> prov_record list option" where
  "result_log res = (case res of Inl e \<Rightarrow> None | Inr (r, w') \<Rightarrow> Some (lists w' ! provenance r))"

definition result_flux :: "error + spectrum \<times> world \<Rightarrow> fl list option" where
  "result_flux res = (case res of Inl e \<Rightarrow> None | Inr (r, w') \<Rightarrow> Some (arrays w' ! flux r))"

text \<open>
  The log \<open>new\<close> is the log \<open>old\<close> and two more records, the first of the operation
  \<open>created\<close> and the second of the operation \<open>opn\<close>.
\<close>

definition grown_by_two :: "prov_record list \<Rightarrow> string \<Rightarrow> prov_record list \<Rightarrow> bool" where
  "grown_by_two old opn new \<longleftrightarrow>
     length new = length old + 2 \<and> take (length old) new = old \<and>
     operation (new ! length old) = ''created'' \<and>
     operation (new ! Suc (length old)) = opn"

text \<open>
  A store with two spectra: \<open>s0\<close> on the grid 1, 2, 3 and \<open>b0\<close> on the grid 2, 4, each
  with the one record of its construction. The clock counts its readings in strokes.
\<close>

definition tally_clock :: "nat \<Rightarrow> string" where
  "tally_clock n = replicate n (CHR ''I'')"

definition w0 :: world where
  "w0 = \<lparr>arrays = [[Fin 1, Fin 2, Fin 3], [Fin 2, Fin 4, Fin 8], [Fin 2, Fin 4], [Fin 10, Fin 30]],
         dicts = [[(''source'', PStr ''lab'')], []],
         lists = [[\<lparr>operation = ''created'', timestamp = ''then'', details = []\<rparr>],
                  [\<lparr>operation = ''created'', timestamp = ''then'', details = []\<rparr>]],
         clock = tally_clock, ticks = 0\<rparr>"

definition s0 :: spectrum where
  "s0 = \<lparr>wavelength = 0, flux = 1, wavelength_unit = ''nm'', flux_unit = ''counts'',
         metadata = 0, provenance = 0, name = Some ''star''\<rparr>"

definition b0 :: spectrum where
  "b0 = \<lparr>wavelength = 2, flux = 3, wavelength_unit = ''nm'', flux_unit = ''counts'',
         metadata = 1, provenance = 1, name = None\<rparr>"

text \<open>Filters that return their input, to run \<open>smooth_spectrum\<close> on an example.\<close>

definition id_smoothers :: smoothers where
  "id_smoothers =
     \<lparr>savgol_filter = (\<lambda>xs n. Inr xs), uniform_filter1d = (\<lambda>xs n. Inr xs),
      gaussian_filter1d = (\<lambda>xs sigma. Inr xs)\<rparr>"


section \<open>Definitions for the claims on conversion, division and normalization\<close>



text \<open>
  Two spectra on one grid of a single point; the flux of the first is NaN there, the flux
  of the second is 1.
\<close>

definition w6 :: world where
  "w6 = \<lparr>arrays = [[Fin 500], [NaN], [Fin 1]],
         dicts = [[]],
         lists = [[\<lparr>operation = ''created'', timestamp = ''then'', details = []\<rparr>]],
         clock = tally_clock, ticks = 0\<rparr>"

definition a6 :: spectrum where
  "a6 = \<lparr>wavelength = 0, flux = 1, wavelength_unit = ''nm'', flux_unit = ''counts'',
         metadata = 0, provenance = 0, name = None\<rparr>"

definition b6 :: spectrum where
  "b6 = \<lparr>wavelength = 0, flux = 2, wavelength_unit = ''nm'', flux_unit = ''counts'',
         metadata = 0, provenance = 0, name = None\<rparr>"

text \<open>Two spectra on one grid of two points; the flux of the second is zero at the first.\<close>

definition wz :: world where
  "wz = \<lparr>arrays = [[Fin 500, Fin 600], [Fin 3, Fin 4], [Fin 0, Fin 2]],
         dicts = [[]],
         lists = [[\<lparr>operation = ''created'', timestamp = ''then'', details = []\<rparr>]],
         clock = tally_clock, ticks = 0\<rparr>"

definition az :: spectrum where
  "az = \<lparr>wavelength = 0, flux = 1, wavelength_unit = ''nm'', flux_unit = ''counts'',
         metadata = 0, provenance = 0, name = None\<rparr>"

definition bz :: spectrum where
  "bz = \<lparr>wavelength = 0, flux = 2, wavelength_unit = ''nm'', flux_unit = ''counts'',
         metadata = 0, provenance = 0, name = None\<rparr>"


text \<open>A spectrum whose flux is negative throughout.\<close>

definition w7 :: world where
  "w7 = \<lparr>arrays = [[Fin 500, Fin 600], [Fin (- 2), Fin (- 1)]],
         dicts = [[]],
         lists = [[\<lparr>operation = ''created'', timestamp = ''then'', details = []\<rparr>]],
         clock = tally_clock, ticks = 0\<rparr>"

definition s7 :: spectrum where
  "s7 = \<lparr>wavelength = 0, flux = 1, wavelength_unit = ''nm'', flux_unit = ''counts'',
         metadata = 0, provenance = 0, name = None\<rparr>"







section \<open>Definitions for the claim on interpolation\<close>






section \<open>Facts about the store and the constructor\<close>

lemmas store_defs = new_array_def new_dict_def new_list_def now_def add_provenance_def
  or_new_dict_def or_new_list_def Spectrum_init_def

lemmas example_defs = w0_def s0_def b0_def tally_clock_def id_smoothers_def

lemmas fl_cmp_defs = fl_eq_def fl_ne_def fl_le_def fl_ge_def fl_gt_def

lemma valid_s0: "valid w0 s0"
  by (simp add: valid_def example_defs)






lemma init_then_log:
  assumes "Spectrum_init wl fx wu fu md (Some (length ls)) nm w4 = Inr (r, w5)"
    and "lists w4 = ls @ [old]"
  shows "grown_by_two old opn (lists (add_provenance r opn det w5) ! provenance r)"
  using assms
  by (auto simp add: store_defs grown_by_two_def Let_def nth_append
      split: if_splits prod.splits option.splits)


section \<open>The operations on the example store\<close>

lemma returns_iff: "\<not> isl res \<longleftrightarrow> (\<exists>r w'. res = Inr (r, w'))"
  by (cases res) auto


lemma get_range_s0: "\<not> isl (get_range s0 (Fin 2) (Fin 3) w0)"
  by (simp add: get_range_def mask_select_def range_mask_def fl_cmp_defs store_defs
      example_defs Let_def)


lemma subtract_s0: "\<not> isl (subtract_spectra s0 b0 True w0)"
  by (simp add: subtract_spectra_def align_flux_def array_equal_def np_binop_def np_interp_def
      store_defs example_defs Let_def)

lemma divide_s0: "\<not> isl (divide_spectra s0 b0 True ''mask'' w0)"
  by (simp add: divide_spectra_def divide_flux_def align_flux_def array_equal_def np_interp_def
      store_defs example_defs Let_def)

lemma normalize_s0: "\<not> isl (normalize_spectrum s0 ''peak'' None None w0)"
  by (simp add: normalize_spectrum_def flux_region_of_def norm_factor_of_def np_max_def
      fl_max_def fl_cmp_defs store_defs example_defs Let_def)

lemma smooth_s0: "\<not> isl (smooth_spectrum id_smoothers s0 5 ''boxcar'' w0)"
  by (simp add: smooth_spectrum_def smooth_flux_def store_defs example_defs Let_def)

lemma convert_s0: "\<not> isl (convert_units s0 None (Some ''angstrom'') ''wavelength'' w0)"
  by (simp add: convert_units_def new_axis_def convert_wavelength_units_def times_scalar_def
      A_ring_def store_defs example_defs Let_def)


section \<open>Facts about the numpy functions on finite values\<close>

lemma foldl_fl_max_Fin: "foldl fl_max (Fin y) (map Fin ys) = Fin (foldl max y ys)"
  by (induction ys arbitrary: y) (simp_all add: fl_max_def max_def)

lemma foldl_max_Max: "foldl max (y :: real) ys = Max (set (y # ys))"
proof -
  have "foldl max y ys = fold max ys y"
    by (simp add: foldl_conv_fold max.commute)
  also have "\<dots> = Max (set (y # ys))"
    by (rule Max.set_eq_fold [symmetric])
  finally show ?thesis .
qed

lemma np_max_Fin:
  assumes "xs \<noteq> []"
  shows "np_max (map Fin xs) = Inr (Fin (Max (set xs)))"
proof (cases xs)
  case Nil
  with assms show ?thesis by simp
next
  case (Cons y ys)
  then show ?thesis
    by (simp only: np_max_def list.map list.case foldl_fl_max_Fin foldl_max_Max)
qed




section \<open>Linear interpolation on an increasing grid of finite values\<close>








section \<open>The provenance log of a derived spectrum\<close>

text \<open>
  C1, as the specification states it, fails: an operation builds its result with the
  constructor on a copy of the input's log, so the constructor appends a \<open>created\<close>
  record before the operation appends its own. The log of \<open>s0\<close> holds one record and
  the log of the difference of \<open>s0\<close> and \<open>b0\<close> holds three.
\<close>

theorem derived_log_counterexample:
  "map operation (lists w0 ! provenance s0) = [''created''] \<and>
   map_option (map operation) (result_log (subtract_spectra s0 b0 True w0)) =
     Some [''created'', ''created'', ''subtraction''] \<and>
   map_option length (result_log (subtract_spectra s0 b0 True w0)) \<noteq>
     Some (length (lists w0 ! provenance s0) + 1)"
  by (simp add: subtract_spectra_def align_flux_def array_equal_def np_binop_def np_interp_def
      result_log_def store_defs example_defs Let_def)

text \<open>
  C1, amended. The log of the spectrum that \<open>subtract_spectra\<close>, \<open>divide_spectra\<close>,
  \<open>normalize_spectrum\<close>, \<open>smooth_spectrum\<close>, \<open>convert_units\<close> or \<open>get_range\<close>
  returns is the log of the input spectrum and exactly two more records: a \<open>created\<close>
  record, and last the record whose operation names the transform (\<open>subtraction\<close>,
  \<open>division\<close>, \<open>normalization\<close>, \<open>smoothing\<close>, \<open>unit_conversion\<close>,
  \<open>range_extraction\<close>).
\<close>

theorem derived_log_grows_by_two:
  "(subtract_spectra s b interpolate w = Inr (r, w') \<longrightarrow>
      grown_by_two (lists w ! provenance s) ''subtraction'' (lists w' ! provenance r)) \<and>
   (divide_spectra s b interpolate handle_zeros w = Inr (r, w') \<longrightarrow>
      grown_by_two (lists w ! provenance s) ''division'' (lists w' ! provenance r)) \<and>
   (normalize_spectrum s meth range_min range_max w = Inr (r, w') \<longrightarrow>
      grown_by_two (lists w ! provenance s) ''normalization'' (lists w' ! provenance r)) \<and>
   (smooth_spectrum sc s window_size smethod w = Inr (r, w') \<longrightarrow>
      grown_by_two (lists w ! provenance s) ''smoothing'' (lists w' ! provenance r)) \<and>
   (convert_units s from_unit to_unit axis w = Inr (r, w') \<longrightarrow>
      grown_by_two (lists w ! provenance s) ''unit_conversion'' (lists w' ! provenance r)) \<and>
   (get_range s lo hi w = Inr (r, w') \<longrightarrow>
      grown_by_two (lists w ! provenance s) ''range_extraction'' (lists w' ! provenance r))"
proof (intro conjI impI)
  assume "subtract_spectra s b interpolate w = Inr (r, w')"
  then show "grown_by_two (lists w ! provenance s) ''subtraction'' (lists w' ! provenance r)"
    apply (clarsimp simp add: subtract_spectra_def new_array_def new_dict_def new_list_def Let_def
        split: sum.splits prod.splits if_splits)
    apply (erule init_then_log)
    apply simp
    done
next
  assume "divide_spectra s b interpolate handle_zeros w = Inr (r, w')"
  then show "grown_by_two (lists w ! provenance s) ''division'' (lists w' ! provenance r)"
    apply (clarsimp simp add: divide_spectra_def new_array_def new_dict_def new_list_def Let_def
        split: sum.splits prod.splits if_splits)
    apply (erule init_then_log)
    apply simp
    done
next
  assume "normalize_spectrum s meth range_min range_max w = Inr (r, w')"
  then show "grown_by_two (lists w ! provenance s) ''normalization'' (lists w' ! provenance r)"
    apply (clarsimp simp add: normalize_spectrum_def new_array_def new_dict_def new_list_def Let_def
        split: sum.splits prod.splits if_splits)
    apply (erule init_then_log)
    apply simp
    done
next
  assume "smooth_spectrum sc s window_size smethod w = Inr (r, w')"
  then show "grown_by_two (lists w ! provenance s) ''smoothing'' (lists w' ! provenance r)"
    apply (clarsimp simp add: smooth_spectrum_def new_array_def new_dict_def new_list_def Let_def
        split: sum.splits prod.splits if_splits)
    apply (erule init_then_log)
    apply simp
    done
next
  assume "convert_units s from_unit to_unit axis w = Inr (r, w')"
  then show "grown_by_two (lists w ! provenance s) ''unit_conversion'' (lists w' ! provenance r)"
    apply (clarsimp simp add: convert_units_def new_array_def new_dict_def new_list_def Let_def
        split: sum.splits prod.splits if_splits)
    apply (erule init_then_log)
    apply (auto simp add: new_axis_def new_array_def split: option.splits if_splits sum.splits)
    done
next
  assume "get_range s lo hi w = Inr (r, w')"
  then show "grown_by_two (lists w ! provenance s) ''range_extraction'' (lists w' ! provenance r)"
    apply (clarsimp simp add: get_range_def new_array_def new_dict_def new_list_def Let_def
        split: sum.splits prod.splits if_splits)
    apply (erule init_then_log)
    apply simp
    done
qed

theorem derived_log_grows_by_two_witness:
  "(\<exists>r w'. subtract_spectra s0 b0 True w0 = Inr (r, w') \<and>
      grown_by_two (lists w0 ! provenance s0) ''subtraction'' (lists w' ! provenance r)) \<and>
   (\<exists>r w'. divide_spectra s0 b0 True ''mask'' w0 = Inr (r, w') \<and>
      grown_by_two (lists w0 ! provenance s0) ''division'' (lists w' ! provenance r)) \<and>
   (\<exists>r w'. normalize_spectrum s0 ''peak'' None None w0 = Inr (r, w') \<and>
      grown_by_two (lists w0 ! provenance s0) ''normalization'' (lists w' ! provenance r)) \<and>
   (\<exists>r w'. smooth_spectrum id_smoothers s0 5 ''boxcar'' w0 = Inr (r, w') \<and>
      grown_by_two (lists w0 ! provenance s0) ''smoothing'' (lists w' ! provenance r)) \<and>
   (\<exists>r w'. convert_units s0 None (Some ''angstrom'') ''wavelength'' w0 = Inr (r, w') \<and>
      grown_by_two (lists w0 ! provenance s0) ''unit_conversion'' (lists w' ! provenance r)) \<and>
   (\<exists>r w'. get_range s0 (Fin 2) (Fin 3) w0 = Inr (r, w') \<and>
      grown_by_two (lists w0 ! provenance s0) ''range_extraction'' (lists w' ! provenance r))"
proof -
  have c0: "\<exists>r w'. subtract_spectra s0 b0 True w0 = Inr (r, w') \<and>
      grown_by_two (lists w0 ! provenance s0) ''subtraction'' (lists w' ! provenance r)"
  proof -
    from subtract_s0 obtain r w' where eq: "subtract_spectra s0 b0 True w0 = Inr (r, w')"
      unfolding returns_iff by blast
    have "grown_by_two (lists w0 ! provenance s0) ''subtraction'' (lists w' ! provenance r)"
      by (rule derived_log_grows_by_two [where w = w0 and s = s0 and b = b0 and interpolate = True,
            THEN conjunct1, THEN mp]) (rule eq)
    with eq show ?thesis by blast
  qed
  have c1: "\<exists>r w'. divide_spectra s0 b0 True ''mask'' w0 = Inr (r, w') \<and>
      grown_by_two (lists w0 ! provenance s0) ''division'' (lists w' ! provenance r)"
  proof -
    from divide_s0 obtain r w' where eq: "divide_spectra s0 b0 True ''mask'' w0 = Inr (r, w')"
      unfolding returns_iff by blast
    have "grown_by_two (lists w0 ! provenance s0) ''division'' (lists w' ! provenance r)"
      by (rule derived_log_grows_by_two [where w = w0 and s = s0 and b = b0 and interpolate = True and handle_zeros = "''mask''",
            THEN conjunct2, THEN conjunct1, THEN mp]) (rule eq)
    with eq show ?thesis by blast
  qed
  have c2: "\<exists>r w'. normalize_spectrum s0 ''peak'' None None w0 = Inr (r, w') \<and>
      grown_by_two (lists w0 ! provenance s0) ''normalization'' (lists w' ! provenance r)"
  proof -
    from normalize_s0 obtain r w' where eq: "normalize_spectrum s0 ''peak'' None None w0 = Inr (r, w')"
      unfolding returns_iff by blast
    have "grown_by_two (lists w0 ! provenance s0) ''normalization'' (lists w' ! provenance r)"
      by (rule derived_log_grows_by_two [where w = w0 and s = s0 and meth = "''peak''" and range_min = None and range_max = None,
            THEN conjunct2, THEN conjunct2, THEN conjunct1, THEN mp]) (rule eq)
    with eq show ?thesis by blast
  qed
  have c3: "\<exists>r w'. smooth_spectrum id_smoothers s0 5 ''boxcar'' w0 = Inr (r, w') \<and>
      grown_by_two (lists w0 ! provenance s0) ''smoothing'' (lists w' ! provenance r)"
  proof -
    from smooth_s0 obtain r w' where eq: "smooth_spectrum id_smoothers s0 5 ''boxcar'' w0 = Inr (r, w')"
      unfolding returns_iff by blast
    have "grown_by_two (lists w0 ! provenance s0) ''smoothing'' (lists w' ! provenance r)"
      by (rule derived_log_grows_by_two [where w = w0 and s = s0 and sc = id_smoothers and window_size = 5 and smethod = "''boxcar''",
            THEN conjunct2, THEN conjunct2, THEN conjunct2, THEN conjunct1, THEN mp]) (rule eq)
    with eq show ?thesis by blast
  qed
  have c4: "\<exists>r w'. convert_units s0 None (Some ''angstrom'') ''wavelength'' w0 = Inr (r, w') \<and>
      grown_by_two (lists w0 ! provenance s0) ''unit_conversion'' (lists w' ! provenance r)"
  proof -
    from convert_s0 obtain r w' where eq: "convert_units s0 None (Some ''angstrom'') ''wavelength'' w0 = Inr (r, w')"
      unfolding returns_iff by blast
    have "grown_by_two (lists w0 ! provenance s0) ''unit_conversion'' (lists w' ! provenance r)"
      by (rule derived_log_grows_by_two [where w = w0 and s = s0 and from_unit = None and to_unit = "Some ''angstrom''" and axis = "''wavelength''",
            THEN conjunct2, THEN conjunct2, THEN conjunct2, THEN conjunct2, THEN conjunct1, THEN mp]) (rule eq)
    with eq show ?thesis by blast
  qed
  have c5: "\<exists>r w'. get_range s0 (Fin 2) (Fin 3) w0 = Inr (r, w') \<and>
      grown_by_two (lists w0 ! provenance s0) ''range_extraction'' (lists w' ! provenance r)"
  proof -
    from get_range_s0 obtain r w' where eq: "get_range s0 (Fin 2) (Fin 3) w0 = Inr (r, w')"
      unfolding returns_iff by blast
    have "grown_by_two (lists w0 ! provenance s0) ''range_extraction'' (lists w' ! provenance r)"
      by (rule derived_log_grows_by_two [where w = w0 and s = s0 and lo = "Fin 2" and hi = "Fin 3",
            THEN conjunct2, THEN conjunct2, THEN conjunct2, THEN conjunct2, THEN conjunct2, THEN mp]) (rule eq)
    with eq show ?thesis by blast
  qed
  from c0 c1 c2 c3 c4 c5 show ?thesis by blast
qed


section \<open>Copying a spectrum\<close>





section \<open>The two arrays of a spectrum have one length\<close>




section \<open>The round trip through a dictionary\<close>

text \<open>
  C4. For a spectrum whose two arrays have one length, \<open>from_dict\<close> on the dictionary of
  \<open>to_dict\<close> returns a spectrum with equal wavelengths, flux, units, metadata and name.
\<close>

theorem from_dict_to_dict_roundtrip:
  assumes "valid w s"
  shows "\<exists>r w'. from_dict (to_dict s w) w = Inr (r, w') \<and>
     arrays w' ! wavelength r = arrays w ! wavelength s \<and>
     arrays w' ! flux r = arrays w ! flux s \<and>
     wavelength_unit r = wavelength_unit s \<and>
     flux_unit r = flux_unit s \<and>
     dicts w' ! metadata r = dicts w ! metadata s \<and>
     name r = name s"
  using assms
  by (auto simp add: from_dict_def to_dict_def valid_def store_defs Let_def nth_append
      split: prod.splits)

theorem from_dict_to_dict_roundtrip_witness:
  "\<exists>r w'. from_dict (to_dict s0 w0) w0 = Inr (r, w') \<and>
     arrays w' ! wavelength r = arrays w0 ! wavelength s0 \<and>
     arrays w' ! flux r = arrays w0 ! flux s0 \<and>
     wavelength_unit r = wavelength_unit s0 \<and>
     flux_unit r = flux_unit s0 \<and>
     dicts w' ! metadata r = dicts w0 ! metadata s0 \<and>
     name r = name s0"
  using from_dict_to_dict_roundtrip [OF valid_s0] .


section \<open>Wavelength to frequency\<close>





section \<open>Division with masked zeros\<close>

text \<open>
  C6, as the specification states it, fails: the result is NaN also where the quotient is
  NaN. On the grid of \<open>a6\<close> and \<open>b6\<close> the denominator is 1 and the numerator is NaN,
  and the result is NaN at a position where the denominator is not zero.
\<close>

theorem divide_mask_counterexample:
  "array_equal (arrays w6 ! wavelength a6) (arrays w6 ! wavelength b6) \<and>
   arrays w6 ! flux b6 = [Fin 1] \<and>
   result_flux (divide_spectra a6 b6 True ''mask'' w6) = Some [NaN]"
  by (simp add: divide_spectra_def divide_flux_def align_flux_def array_equal_def
      result_flux_def fl_cmp_defs store_defs w6_def a6_def b6_def tally_clock_def Let_def)

text \<open>
  C6, amended. For two spectra on equal wavelength grids, \<open>divide_spectra\<close> with
  \<open>handle_zeros="mask"\<close> returns a flux array of the length of the inputs that is NaN at
  every position where the flux of \<open>b\<close> is exactly zero and is the quotient of the two
  fluxes at every other position. Where both fluxes are finite, the result is NaN exactly
  when the flux of \<open>b\<close> is zero.
\<close>

theorem divide_mask_zero_positions:
  assumes "valid w a" and "valid w b"
    and "array_equal (arrays w ! wavelength a) (arrays w ! wavelength b)"
  shows "\<exists>r w'. divide_spectra a b interpolate ''mask'' w = Inr (r, w') \<and>
     length (arrays w' ! flux r) = length (arrays w ! flux a) \<and>
     (\<forall>k < length (arrays w ! flux a).
        (fl_eq (arrays w ! flux b ! k) (Fin 0) \<longrightarrow> arrays w' ! flux r ! k = NaN) \<and>
        (\<not> fl_eq (arrays w ! flux b ! k) (Fin 0) \<longrightarrow>
           arrays w' ! flux r ! k = fl_div (arrays w ! flux a ! k) (arrays w ! flux b ! k)) \<and>
        (isfinite (arrays w ! flux a ! k) \<and> isfinite (arrays w ! flux b ! k) \<longrightarrow>
           (isnan (arrays w' ! flux r ! k) \<longleftrightarrow> arrays w ! flux b ! k = Fin 0)))"
proof -
  let ?fa = "arrays w ! flux a" and ?fb = "arrays w ! flux b"
  let ?q = "map2 (\<lambda>x y. if fl_ne y (Fin 0) then fl_div x y else NaN) ?fa ?fb"
  from assms have len: "length ?fb = length ?fa"
    by (simp add: valid_def array_equal_def)
  from assms len have al: "align_flux a b interpolate w = Inr ?fb"
    by (simp add: align_flux_def array_equal_def valid_def)
  from len have dv: "divide_flux ''mask'' ?fa ?fb = Inr ?q"
    by (simp add: divide_flux_def)
  from assms len have lq: "length ?q = length (arrays w ! wavelength a)"
    by (simp add: valid_def)
  have res: "\<exists>r w'. divide_spectra a b interpolate ''mask'' w = Inr (r, w') \<and>
     arrays w' ! flux r = ?q"
    using lq len assms(1)
    by (simp add: divide_spectra_def al dv store_defs valid_def Let_def nth_append)
  have fin: "isnan (fl_div (Fin x) (Fin y)) \<longleftrightarrow> y = 0 \<and> x = 0" for x y
    by (simp add: inf_signed_def)
  have pt: "k < length ?fa \<Longrightarrow>
        (fl_eq (?fb ! k) (Fin 0) \<longrightarrow> ?q ! k = NaN) \<and>
        (\<not> fl_eq (?fb ! k) (Fin 0) \<longrightarrow> ?q ! k = fl_div (?fa ! k) (?fb ! k)) \<and>
        (isfinite (?fa ! k) \<and> isfinite (?fb ! k) \<longrightarrow> (isnan (?q ! k) \<longleftrightarrow> ?fb ! k = Fin 0))" for k
    using len
    by (cases "?fa ! k"; cases "?fb ! k") (auto simp add: fl_ne_def fl_eq_def inf_signed_def)
  from res obtain r w' where r: "divide_spectra a b interpolate ''mask'' w = Inr (r, w')"
    and q: "arrays w' ! flux r = ?q" by blast
  show ?thesis
    apply (rule exI [of _ r], rule exI [of _ w'])
    using r q len pt by simp
qed

theorem divide_mask_zero_positions_witness:
  "\<exists>r w'. divide_spectra az bz True ''mask'' wz = Inr (r, w') \<and>
     length (arrays w' ! flux r) = 2 \<and>
     arrays w' ! flux r ! 0 = NaN \<and>
     arrays w' ! flux r ! 1 = Fin 2"
proof -
  have va: "valid wz az" and vb: "valid wz bz"
    by (simp_all add: valid_def wz_def az_def bz_def)
  have eq: "array_equal (arrays wz ! wavelength az) (arrays wz ! wavelength bz)"
    by (simp add: array_equal_def fl_eq_def wz_def az_def bz_def)
  have fa: "arrays wz ! flux az = [Fin 3, Fin 4]" and fb: "arrays wz ! flux bz = [Fin 0, Fin 2]"
    by (simp_all add: wz_def az_def bz_def)
  from divide_mask_zero_positions [OF va vb eq, of True]
  obtain r w' where r: "divide_spectra az bz True ''mask'' wz = Inr (r, w')"
    and l: "length (arrays w' ! flux r) = length (arrays wz ! flux az)"
    and pt: "\<forall>k < length (arrays wz ! flux az).
        (fl_eq (arrays wz ! flux bz ! k) (Fin 0) \<longrightarrow> arrays w' ! flux r ! k = NaN) \<and>
        (\<not> fl_eq (arrays wz ! flux bz ! k) (Fin 0) \<longrightarrow>
           arrays w' ! flux r ! k = fl_div (arrays wz ! flux az ! k) (arrays wz ! flux bz ! k)) \<and>
        (isfinite (arrays wz ! flux az ! k) \<and> isfinite (arrays wz ! flux bz ! k) \<longrightarrow>
           (isnan (arrays w' ! flux r ! k) \<longleftrightarrow> arrays wz ! flux bz ! k = Fin 0))"
    by blast
  from pt [rule_format, of 0] have "arrays w' ! flux r ! 0 = NaN"
    by (simp add: fa fb fl_eq_def)
  moreover from pt [rule_format, of 1] have "arrays w' ! flux r ! 1 = Fin 2"
    by (simp add: fa fb fl_eq_def)
  ultimately show ?thesis using r l by (simp add: fa)
qed


section \<open>Normalization to the peak\<close>

text \<open>
  C7, as the specification states it, fails: the factor is the maximum of the flux, and a
  negative maximum turns the order of the values around. The flux -2, -1 has the maximum
  -1 and is normalized, without failure, to 2, 1, whose maximum is 2.
\<close>

theorem normalize_peak_counterexample:
  "arrays w7 ! flux s7 = [Fin (- 2), Fin (- 1)] \<and>
   result_flux (normalize_spectrum s7 ''peak'' None None w7) = Some [Fin 2, Fin 1] \<and>
   np_max [Fin 2, Fin 1] = Inr (Fin 2)"
  by (simp add: normalize_spectrum_def flux_region_of_def norm_factor_of_def np_max_def
      fl_max_def fl_cmp_defs result_flux_def store_defs w7_def s7_def tally_clock_def Let_def)

text \<open>
  C7, amended. For a spectrum with a non-empty flux array of finite values whose maximum
  is positive, \<open>normalize_spectrum\<close> with \<open>method="peak"\<close> and no range returns a
  spectrum whose flux is the input flux divided by that maximum and whose maximum flux
  value is exactly 1.
\<close>

theorem normalize_peak_max_is_one:
  assumes "valid w s"
    and "arrays w ! flux s = map Fin xs"
    and "xs \<noteq> []"
    and "0 < Max (set xs)"
  shows "\<exists>r w'. normalize_spectrum s ''peak'' None None w = Inr (r, w') \<and>
     arrays w' ! flux r = map (\<lambda>x. Fin (x / Max (set xs))) xs \<and>
     np_max (arrays w' ! flux r) = Inr (Fin 1)"
proof -
  let ?M = "Max (set xs)"
  let ?ys = "map (\<lambda>x. x / ?M) xs"
  from assms have factor: "norm_factor_of ''peak'' (arrays w ! flux s) = Inr (Fin ?M)"
    by (simp add: norm_factor_of_def np_max_Fin)
  from assms have nz: "\<not> fl_eq (Fin ?M) (Fin 0)"
    by (simp add: fl_eq_def)
  from assms have quot: "map (\<lambda>x. fl_div x (Fin ?M)) (arrays w ! flux s) = map Fin ?ys"
    by simp
  from assms have len: "length (map Fin ?ys) = length (arrays w ! wavelength s)"
    by (simp add: valid_def)
  have res: "\<exists>r w'. normalize_spectrum s ''peak'' None None w = Inr (r, w') \<and>
     arrays w' ! flux r = map Fin ?ys"
    using len assms(1)
    by (simp add: normalize_spectrum_def flux_region_of_def factor nz quot store_defs valid_def
        Let_def nth_append del: map_map)
  have "Max (set ?ys) = 1"
  proof (rule Max_eqI)
    show "finite (set ?ys)" by simp
    from assms have "?M \<in> set xs" by simp
    with assms show "1 \<in> set ?ys" by (auto simp add: image_iff)
    fix y assume "y \<in> set ?ys"
    then obtain x where "x \<in> set xs" and y: "y = x / ?M" by auto
    then have "x \<le> ?M" by simp
    with assms y show "y \<le> 1" by (simp add: divide_le_eq)
  qed
  moreover from assms have "?ys \<noteq> []" by simp
  ultimately have "np_max (map Fin ?ys) = Inr (Fin 1)"
    using np_max_Fin [of ?ys] by simp
  with res show ?thesis by (auto simp add: comp_def)
qed

theorem normalize_peak_max_is_one_witness:
  "\<exists>r w'. normalize_spectrum s0 ''peak'' None None w0 = Inr (r, w') \<and>
     arrays w' ! flux r = [Fin (1 / 4), Fin (1 / 2), Fin 1] \<and>
     np_max (arrays w' ! flux r) = Inr (Fin 1)"
proof -
  have fx: "arrays w0 ! flux s0 = map Fin [2, 4, 8]"
    by (simp add: example_defs)
  have ne: "[2, 4, 8 :: real] \<noteq> []" by simp
  have mx: "Max (set [2, 4, 8 :: real]) = 8" by simp
  then have pos: "0 < Max (set [2, 4, 8 :: real])" by simp
  from normalize_peak_max_is_one [OF valid_s0 fx ne pos] mx
  show ?thesis by simp
qed


section \<open>Normalization to the area\<close>





section \<open>Subtraction with interpolation\<close>





section \<open>Aliasing of the provenance list\<close>

text \<open>
  C10. The constructor keeps a non-empty provenance list that it is given: the spectrum's
  log is that same object, and the \<open>created\<close> record is appended to it, so the caller's
  list changes. \<open>from_dict\<close> on the dictionary of \<open>to_dict\<close> passes the log of the
  spectrum itself, which grows by that record. Given \<open>None\<close> or an empty list, the
  constructor makes a new list: the arrays, the dictionaries and the lists that were there
  are as they were.
\<close>

theorem constructor_shares_nonempty_provenance:
  assumes "length (arrays w ! wl) = length (arrays w ! fx)"
  shows
    "(p < length (lists w) \<and> lists w ! p \<noteq> [] \<longrightarrow>
        (\<exists>s w'. Spectrum_init wl fx wu fu md (Some p) nm w = Inr (s, w') \<and>
           provenance s = p \<and>
           lists w' = (lists w)[p := lists w ! p @ [created_record w]])) \<and>
     (pv = None \<or> (\<exists>q. pv = Some q \<and> lists w ! q = []) \<longrightarrow>
        (\<exists>s w'. Spectrum_init wl fx wu fu md pv nm w = Inr (s, w') \<and>
           provenance s = length (lists w) \<and>
           lists w' = lists w @ [[created_record w]] \<and>
           arrays w' = arrays w \<and>
           take (length (dicts w)) (dicts w') = dicts w)) \<and>
     (valid w s \<and> lists w ! provenance s \<noteq> [] \<longrightarrow>
        (\<exists>r w'. from_dict (to_dict s w) w = Inr (r, w') \<and>
           provenance r = provenance s \<and>
           lists w' ! provenance s = lists w ! provenance s @ [created_record w]))"
proof (intro conjI impI)
  assume "p < length (lists w) \<and> lists w ! p \<noteq> []"
  with assms show "\<exists>s w'. Spectrum_init wl fx wu fu md (Some p) nm w = Inr (s, w') \<and>
           provenance s = p \<and> lists w' = (lists w)[p := lists w ! p @ [created_record w]]"
    by (auto simp add: store_defs created_record_def Let_def split: option.splits)
next
  assume "pv = None \<or> (\<exists>q. pv = Some q \<and> lists w ! q = [])"
  with assms show "\<exists>s w'. Spectrum_init wl fx wu fu md pv nm w = Inr (s, w') \<and>
           provenance s = length (lists w) \<and> lists w' = lists w @ [[created_record w]] \<and>
           arrays w' = arrays w \<and> take (length (dicts w)) (dicts w') = dicts w"
    by (auto simp add: store_defs created_record_def Let_def split: option.splits)
next
  assume "valid w s \<and> lists w ! provenance s \<noteq> []"
  then show "\<exists>r w'. from_dict (to_dict s w) w = Inr (r, w') \<and> provenance r = provenance s \<and>
           lists w' ! provenance s = lists w ! provenance s @ [created_record w]"
    by (auto simp add: from_dict_def to_dict_def valid_def store_defs created_record_def Let_def
        nth_append split: option.splits)
qed

theorem constructor_shares_nonempty_provenance_witness:
  "(\<exists>s w'. Spectrum_init 0 1 ''nm'' ''counts'' None (Some 0) None w0 = Inr (s, w') \<and>
      provenance s = 0 \<and>
      lists w' = (lists w0)[0 := lists w0 ! 0 @ [created_record w0]]) \<and>
   (\<exists>s w'. Spectrum_init 0 1 ''nm'' ''counts'' None None None w0 = Inr (s, w') \<and>
      provenance s = length (lists w0) \<and>
      lists w' = lists w0 @ [[created_record w0]] \<and>
      arrays w' = arrays w0 \<and>
      take (length (dicts w0)) (dicts w') = dicts w0) \<and>
   (\<exists>r w'. from_dict (to_dict s0 w0) w0 = Inr (r, w') \<and>
      provenance r = provenance s0 \<and>
      lists w' ! provenance s0 = lists w0 ! provenance s0 @ [created_record w0])"
proof -
  have len: "length (arrays w0 ! 0) = length (arrays w0 ! 1)"
    by (simp add: w0_def)
  have kept: "0 < length (lists w0) \<and> lists w0 ! 0 \<noteq> []"
    by (simp add: w0_def)
  have own: "valid w0 s0 \<and> lists w0 ! provenance s0 \<noteq> []"
    by (simp add: valid_s0) (simp add: w0_def s0_def)
  have none: "(None :: addr option) = None \<or> (\<exists>q. (None :: addr option) = Some q \<and> lists w0 ! q = [])"
    by simp
  from constructor_shares_nonempty_provenance
         [OF len, where p = 0 and pv = None and s = s0 and wu = "''nm''" and fu = "''counts''"
            and md = None and nm = None]
       kept own none
  show ?thesis by blast
qed


end
